theory Spec2Isabelle
  imports Complex_Main "HOL-Library.Word"
begin

section \<open>The voice-style registry (tts_app.py, lines 22-29)\<close>

text \<open>
  A style is a Python dict with the keys \<^verbatim>\<open>speed\<close> (a float), \<^verbatim>\<open>pitch\<close> and
  \<^verbatim>\<open>volume\<close> (ints), and for one style the key \<^verbatim>\<open>effect\<close>. The optional key is
  read with \<^verbatim>\<open>style_params.get("effect")\<close>, so a missing key is \<open>None\<close>. Floats are
  idealised as reals throughout.
\<close>

record style_params =
  speed :: real
  pitch :: int
  volume :: int
  effect :: "string option"

text \<open>The dict literal, in source order (a Python dict keeps insertion order).\<close>

definition voice_styles :: "(string \<times> style_params) list" where
  "voice_styles =
    [(''neutral'', \<lparr>speed = 1.0, pitch = 0, volume = 0, effect = None\<rparr>),
     (''happy'', \<lparr>speed = 1.2, pitch = 50, volume = 2, effect = None\<rparr>),
     (''sad'', \<lparr>speed = 0.8, pitch = -30, volume = -3, effect = None\<rparr>),
     (''angry'', \<lparr>speed = 1.1, pitch = 20, volume = 6, effect = None\<rparr>),
     (''whisper'', \<lparr>speed = 0.9, pitch = -50, volume = -10, effect = None\<rparr>),
     (''robot'', \<lparr>speed = 1.0, pitch = 0, volume = 0, effect = Some ''robot''\<rparr>)]"

text \<open>
  Exceptions are values. \<open>KeyError\<close> is what a dict subscript raises on a missing key,
  \<open>ValueError\<close> and \<open>ZeroDivisionError\<close> come from the \<^verbatim>\<open>AudioSegment\<close> constructor
  and the sample array, \<open>OverflowError\<close> from float exponentiation, and
  \<open>LibraryError\<close> stands for whatever a signal-processing library call raises.
\<close>

datatype error =
    KeyError string
  | ValueError
  | ZeroDivisionError
  | OverflowError
  | LibraryError string

text \<open>The subscript \<^verbatim>\<open>voice_styles[style]\<close> of line 127.\<close>

definition lookup :: "string \<Rightarrow> error + style_params" where
  "lookup style =
    (case map_of voice_styles style of
       None \<Rightarrow> Inl (KeyError style)
     | Some p \<Rightarrow> Inr p)"

section \<open>Audio segments and the library calls\<close>

type_synonym byte = "8 word"

text \<open>
  A pydub \<^verbatim>\<open>AudioSegment\<close>: the raw PCM bytes and the three tags that say how to
  read them (\<open>sample_width\<close> in bytes per sample).
\<close>

record audio_segment =
  raw_data :: "byte list"
  frame_rate :: int
  sample_width :: int
  channels :: int

text \<open>
  The signal-processing routines of pydub, audioop and librosa are not part of the
  program; they are parameters of the model. Each may raise.
  \<^item> \<open>from_file\<close>: \<^verbatim>\<open>AudioSegment.from_file\<close>, the decoder;
  \<^item> \<open>speedup\<close>: \<^verbatim>\<open>AudioSegment.speedup(playback_speed=...)\<close>;
  \<^item> \<open>pitch_shift\<close>: \<^verbatim>\<open>librosa.effects.pitch_shift(y, sr=..., n_steps=...)\<close>;
  \<^item> \<open>ratecv\<close>: the resampler behind \<^verbatim>\<open>set_frame_rate\<close>, given the data, the sample
    width, the channel count, the current and the requested rate;
  \<^item> \<open>apply_gain\<close>: what \<^verbatim>\<open>audio += n\<close> calls for a number \<open>n\<close>;
  \<^item> \<open>export\<close>: \<^verbatim>\<open>audio.export(output, format="mp3")\<close>, the encoder.
\<close>

record lib =
  from_file :: "byte list \<Rightarrow> error + audio_segment"
  speedup :: "audio_segment \<Rightarrow> real \<Rightarrow> error + audio_segment"
  pitch_shift :: "real list \<Rightarrow> int \<Rightarrow> int \<Rightarrow> error + real list"
  ratecv :: "byte list \<Rightarrow> int \<Rightarrow> int \<Rightarrow> int \<Rightarrow> int \<Rightarrow> error + byte list"
  apply_gain :: "audio_segment \<Rightarrow> int \<Rightarrow> error + audio_segment"
  export :: "audio_segment \<Rightarrow> error + byte list"

subsection \<open>The thin glue around them\<close>

text \<open>
  The calls of this subsection belong to pydub and numpy as well, but they only move
  bytes and tags about. They are written out, after the behaviour of those
  libraries, so that the lines of process_audio can be followed through them.
\<close>

text \<open>
  \<^verbatim>\<open>audio._spawn(data, overrides={"frame_rate": r})\<close>: a new segment with the given
  data and the metadata of \<open>audio\<close>, the frame rate replaced. No check is made.
\<close>

definition spawn :: "audio_segment \<Rightarrow> byte list \<Rightarrow> int \<Rightarrow> audio_segment" where
  "spawn audio data r = audio\<lparr>raw_data := data, frame_rate := r\<rparr>"

text \<open>
  \<^verbatim>\<open>audio.set_frame_rate(r)\<close>: the segment itself when it already has rate \<open>r\<close>;
  otherwise the data is resampled (empty data is kept) and respawned at rate \<open>r\<close>.
\<close>

definition set_frame_rate :: "lib \<Rightarrow> audio_segment \<Rightarrow> int \<Rightarrow> error + audio_segment" where
  "set_frame_rate l audio r =
    (if r = frame_rate audio then Inr audio
     else if raw_data audio \<noteq> [] then
       (case ratecv l (raw_data audio) (sample_width audio) (channels audio) (frame_rate audio) r of
          Inl e \<Rightarrow> Inl e
        | Inr converted \<Rightarrow> Inr (spawn audio converted r))
     else Inr (spawn audio (raw_data audio) r))"

text \<open>
  The constructor \<^verbatim>\<open>AudioSegment(data, frame_rate=, sample_width=, channels=)\<close>: it
  rejects data whose length is not a multiple of \<open>sample_width * channels\<close>.
\<close>

definition AudioSegment :: "byte list \<Rightarrow> int \<Rightarrow> int \<Rightarrow> int \<Rightarrow> error + audio_segment" where
  "AudioSegment data fr sw ch =
    (if sw * ch = 0 then Inl ZeroDivisionError
     else if int (length data) mod (sw * ch) \<noteq> 0 then Inl ValueError
     else Inr \<lparr>raw_data = data, frame_rate = fr, sample_width = sw, channels = ch\<rparr>)"

text \<open>Little-endian two's complement, the native layout of the sample array.\<close>

fun le_unsigned :: "byte list \<Rightarrow> int" where
  "le_unsigned [] = 0"
| "le_unsigned (b # bs) = uint b + 256 * le_unsigned bs"

definition le_signed :: "byte list \<Rightarrow> int" where
  "le_signed bs =
    (let u = le_unsigned bs; m = 2 ^ (8 * length bs)
     in if m \<le> 2 * u then u - m else u)"

function group_bytes :: "nat \<Rightarrow> byte list \<Rightarrow> byte list list" where
  "group_bytes n bs =
    (if n = 0 \<or> length bs < n then []
     else take n bs # group_bytes n (drop n bs))"
  by pat_completeness auto
termination
  by (relation "measure (\<lambda>(n, bs). length bs)") auto

declare group_bytes.simps [simp del]

text \<open>
  \<^verbatim>\<open>audio.get_array_of_samples()\<close>: an integer array whose item size is the sample
  width (1, 2 or 4 bytes; any other width has no array type), all channels
  interleaved in one sequence.
\<close>

definition get_array_of_samples :: "audio_segment \<Rightarrow> error + int list" where
  "get_array_of_samples audio =
    (if sample_width audio \<notin> {1, 2, 4} then Inl (KeyError ''bit_depth'')
     else if length (raw_data audio) mod nat (sample_width audio) \<noteq> 0 then Inl ValueError
     else Inr (map le_signed (group_bytes (nat (sample_width audio)) (raw_data audio))))"

text \<open>Python's \<^verbatim>\<open>int(x)\<close> on a float: the fraction is dropped.\<close>

definition py_int :: "real \<Rightarrow> int" where
  "py_int x = (if 0 \<le> x then \<lfloor>x\<rfloor> else \<lceil>x\<rceil>)"

text \<open>
  \<^verbatim>\<open>samples.astype(np.int16)\<close> on a float array: the C conversion. The fraction
  is dropped and the integer is stored in 16 bits; nothing is clamped, so a value
  outside \<open>-32768..32767\<close> keeps only its low 16 bits. This is what the conversion
  gives for values within the 32-bit range; beyond it C leaves the result open, and
  the definition is not to be read there.
\<close>

definition astype_int16 :: "real \<Rightarrow> 16 word" where
  "astype_int16 v = word_of_int (py_int v)"

text \<open>\<^verbatim>\<open>.tobytes()\<close> of an int16 array: two bytes per sample, low byte first.\<close>

definition tobytes :: "16 word list \<Rightarrow> byte list" where
  "tobytes ws = concat (map (\<lambda>w. [ucast w, ucast (drop_bit 8 w)]) ws)"

section \<open>process_audio (tts_app.py, lines 43-60)\<close>

text \<open>
  A Python float is a double. Floats are idealised as reals; what is kept of the
  double is its range: a result whose magnitude reaches \<open>2 ^ 1024\<close> does not fit.
\<close>

definition float_limit :: real where
  "float_limit = 2 ^ 1024"

text \<open>
  Line 53: \<^verbatim>\<open>int(audio.frame_rate * (2 ** (style_params["pitch"] / 1200)))\<close>. Python
  raises \<open>OverflowError\<close> at each step whose result leaves the float range: the
  quotient \<^verbatim>\<open>pitch / 1200\<close> (on either side of zero), the power of two (its
  exponent reaches 1024), the rate as a float, and the product, which is then
  infinite when \<^verbatim>\<open>int\<close> is asked to convert it.
\<close>

definition new_sample_rate :: "int \<Rightarrow> int \<Rightarrow> error + int" where
  "new_sample_rate rate cents =
    (if float_limit \<le> \<bar>real_of_int cents / 1200\<bar> then Inl OverflowError
     else if 1024 \<le> real_of_int cents / 1200 then Inl OverflowError
     else if float_limit \<le> \<bar>real_of_int rate\<bar> then Inl OverflowError
     else if float_limit \<le> \<bar>real_of_int rate * 2 powr (real_of_int cents / 1200)\<bar>
       then Inl OverflowError
     else Inr (py_int (real_of_int rate * 2 powr (real_of_int cents / 1200))))"

text \<open>
  Lines 53-55. Line 54 rebinds \<open>audio\<close> to the respawned segment, so the
  \<^verbatim>\<open>audio.frame_rate\<close> that line 55 passes to \<^verbatim>\<open>set_frame_rate\<close> is read from the
  respawned segment.
\<close>

definition pitch_path :: "lib \<Rightarrow> audio_segment \<Rightarrow> style_params \<Rightarrow> error + audio_segment" where
  "pitch_path l audio style =
    (case new_sample_rate (frame_rate audio) (pitch style) of
       Inl e \<Rightarrow> Inl e
     | Inr r \<Rightarrow>
         (let audio' = spawn audio (raw_data audio) r
          in set_frame_rate l audio' (frame_rate audio')))"

text \<open>Lines 50-51: the float samples become int16 bytes under the old tags.\<close>

definition from_float_samples :: "audio_segment \<Rightarrow> real list \<Rightarrow> error + audio_segment" where
  "from_float_samples audio ys =
    AudioSegment (tobytes (map astype_int16 ys))
      (frame_rate audio) (sample_width audio) (channels audio)"

text \<open>Lines 48-51.\<close>

definition robot_path :: "lib \<Rightarrow> audio_segment \<Rightarrow> error + audio_segment" where
  "robot_path l audio =
    (case get_array_of_samples audio of
       Inl e \<Rightarrow> Inl e
     | Inr samples \<Rightarrow>
         (case pitch_shift l (map real_of_int samples) (frame_rate audio) 5 of
            Inl e \<Rightarrow> Inl e
          | Inr shifted \<Rightarrow> from_float_samples audio shifted))"

text \<open>Lines 45-57: the body between decoding and encoding.\<close>

definition process_stages :: "lib \<Rightarrow> audio_segment \<Rightarrow> style_params \<Rightarrow> error + audio_segment" where
  "process_stages l audio style =
    (case (if speed style \<noteq> 1.0 then speedup l audio (speed style) else Inr audio) of
       Inl e \<Rightarrow> Inl e
     | Inr audio1 \<Rightarrow>
         (case (if effect style = Some ''robot'' then robot_path l audio1
                else if pitch style \<noteq> 0 then pitch_path l audio1 style
                else Inr audio1) of
            Inl e \<Rightarrow> Inl e
          | Inr audio2 \<Rightarrow>
              (if volume style \<noteq> 0 then apply_gain l audio2 (volume style)
               else Inr audio2)))"

definition process_audio :: "lib \<Rightarrow> byte list \<Rightarrow> style_params \<Rightarrow> error + byte list" where
  "process_audio l audio_bytes style =
    (case from_file l audio_bytes of
       Inl e \<Rightarrow> Inl e
     | Inr audio \<Rightarrow>
         (case process_stages l audio style of
            Inl e \<Rightarrow> Inl e
          | Inr audio' \<Rightarrow> export l audio'))"

section \<open>The pipeline as the design describes it\<close>

text \<open>
  The design names three stages, run in the order A, B, C, each a function from
  buffer to buffer that does nothing when its parameter has the unchanged value.
  Stage B picks its path by the effect tag first. A failing stage ends the run.
\<close>

definition then_stage :: "error + 'a \<Rightarrow> ('a \<Rightarrow> error + 'b) \<Rightarrow> error + 'b" where
  "then_stage r f = (case r of Inl e \<Rightarrow> Inl e | Inr a \<Rightarrow> f a)"

definition stage_A :: "lib \<Rightarrow> style_params \<Rightarrow> audio_segment \<Rightarrow> error + audio_segment" where
  "stage_A l style audio =
    (if speed style = 1 then Inr audio else speedup l audio (speed style))"

definition stage_B :: "lib \<Rightarrow> style_params \<Rightarrow> audio_segment \<Rightarrow> error + audio_segment" where
  "stage_B l style audio =
    (if effect style = Some ''robot'' then robot_path l audio
     else if pitch style = 0 then Inr audio
     else pitch_path l audio style)"

definition stage_C :: "lib \<Rightarrow> style_params \<Rightarrow> audio_segment \<Rightarrow> error + audio_segment" where
  "stage_C l style audio =
    (if volume style = 0 then Inr audio else apply_gain l audio (volume style))"

definition pipeline :: "lib \<Rightarrow> audio_segment \<Rightarrow> style_params \<Rightarrow> error + audio_segment" where
  "pipeline l audio style =
    then_stage (then_stage (stage_A l style audio) (stage_B l style)) (stage_C l style)"

text \<open>The number of samples a segment holds, all channels counted.\<close>

definition sample_count :: "audio_segment \<Rightarrow> nat" where
  "sample_count audio = length (raw_data audio) div nat (sample_width audio)"

section \<open>Concrete inputs\<close>

text \<open>
  A library instance for evaluating the model: every signal-processing call returns
  its argument unchanged, the decoder reads the bytes as 16-bit mono at 24 kHz.
\<close>

definition passthrough_lib :: lib where
  "passthrough_lib =
    \<lparr>from_file = (\<lambda>bs. Inr \<lparr>raw_data = bs, frame_rate = 24000, sample_width = 2, channels = 1\<rparr>),
     speedup = (\<lambda>audio s. Inr audio),
     pitch_shift = (\<lambda>ys sr n. Inr ys),
     ratecv = (\<lambda>data w c r r'. Inr data),
     apply_gain = (\<lambda>audio g. Inr audio),
     export = (\<lambda>audio. Inr (raw_data audio))\<rparr>"

definition neutral_style :: style_params where
  "neutral_style = \<lparr>speed = 1.0, pitch = 0, volume = 0, effect = None\<rparr>"

definition robot_style :: style_params where
  "robot_style = \<lparr>speed = 1.0, pitch = 0, volume = 0, effect = Some ''robot''\<rparr>"

text \<open>Two 16-bit mono samples, 1 and -2, at 24 kHz.\<close>

definition mono_buffer :: audio_segment where
  "mono_buffer = \<lparr>raw_data = [1, 0, 254, 255], frame_rate = 24000, sample_width = 2, channels = 1\<rparr>"

text \<open>One 16-bit frame of five channels.\<close>

definition five_channel_buffer :: audio_segment where
  "five_channel_buffer =
    \<lparr>raw_data = [1, 0, 2, 0, 3, 0, 4, 0, 5, 0], frame_rate = 24000, sample_width = 2, channels = 5\<rparr>"

text \<open>Three 16-bit samples tagged as stereo: the count is not a multiple of the channels.\<close>

definition ragged_stereo_buffer :: audio_segment where
  "ragged_stereo_buffer =
    \<lparr>raw_data = [1, 0, 2, 0, 3, 0], frame_rate = 24000, sample_width = 2, channels = 2\<rparr>"

section \<open>Facts about the glue\<close>

text \<open>
  The rate passed to \<^verbatim>\<open>set_frame_rate\<close> is the one the segment was just respawned
  with, so the call returns the respawned segment as it is: the pitch path only
  changes the rate tag.
\<close>

lemma pitch_path_eq:
  "pitch_path l audio style =
    (case new_sample_rate (frame_rate audio) (pitch style) of
       Inl e \<Rightarrow> Inl e
     | Inr r \<Rightarrow> Inr (audio\<lparr>frame_rate := r\<rparr>))"
  by (simp add: pitch_path_def set_frame_rate_def spawn_def Let_def split: sum.splits)






text \<open>The 24th root of two lies between 24703/24000 and 24704/24000.\<close>

lemma root24:
  fixes a :: real
  assumes "0 < a"
  shows "a = (a ^ 24) powr (1/24)"
proof -
  have "(a ^ 24) powr (1/24) = (a powr 24) powr (1/24)"
    using assms by simp
  also have "\<dots> = a powr (24 * (1/24))"
    by (simp only: powr_powr)
  finally show ?thesis
    using assms by simp
qed

lemma root24_of_two_bounds:
  "(24703/24000 :: real) \<le> 2 powr (1/24) \<and> 2 powr (1/24) < (24704/24000 :: real)"
proof
  have "(24703/24000 :: real) = ((24703/24000) ^ 24) powr (1/24)"
    by (rule root24) simp
  also have "\<dots> \<le> 2 powr (1/24)"
    by (rule powr_mono2) (simp_all add: power_divide)
  finally show "(24703/24000 :: real) \<le> 2 powr (1/24)" .
  have "2 powr (1/24) < ((24704/24000 :: real) ^ 24) powr (1/24)"
    by (rule powr_less_mono2) (simp_all add: power_divide)
  also have "\<dots> = (24704/24000 :: real)"
    by (rule root24 [symmetric]) simp
  finally show "2 powr (1/24) < (24704/24000 :: real)" .
qed

lemma new_sample_rate_happy: "new_sample_rate 24000 50 = Inr 24703"
proof -
  have e: "(50 / 1200 :: real) = 1/24"
    by simp
  have lo: "24703 \<le> 24000 * 2 powr (1/24 :: real)"
    and hi: "24000 * 2 powr (1/24 :: real) < 24704"
    using root24_of_two_bounds by simp_all
  have fl: "\<lfloor>24000 * 2 powr (1/24 :: real)\<rfloor> = 24703"
    using lo hi by (simp add: floor_eq_iff)
  have "(24704 :: real) < float_limit"
    by (simp add: float_limit_def)
  with hi have small: "\<not> float_limit \<le> 24000 * 2 powr (1/24 :: real)"
    by simp
  have rate: "\<not> float_limit \<le> (24000 :: real)"
    by (simp add: float_limit_def)
  have quot: "\<not> float_limit \<le> (1/24 :: real)"
    by (simp add: float_limit_def)
  from lo have pos: "0 \<le> 24000 * 2 powr (1/24 :: real)"
    by simp
  show ?thesis
    using fl small rate quot pos by (simp add: new_sample_rate_def py_int_def e)
qed

text \<open>Sizes of the sample array and of the rebuilt data.\<close>

lemma length_tobytes: "length (tobytes ws) = 2 * length ws"
  by (induction ws) (simp_all add: tobytes_def)

lemma length_group_bytes: "0 < n \<Longrightarrow> length (group_bytes n bs) = length bs div n"
proof (induction n bs rule: group_bytes.induct)
  case (1 n bs)
  show ?case
  proof (cases "length bs < n")
    case True
    then show ?thesis
      by (simp add: group_bytes.simps)
  next
    case False
    with 1 have "length (group_bytes n (drop n bs)) = (length bs - n) div n"
      by simp
    with False 1(2) show ?thesis
      by (subst group_bytes.simps) (simp add: le_div_geq)
  qed
qed

lemma length_get_array_of_samples:
  "get_array_of_samples audio = Inr xs \<Longrightarrow> length xs = sample_count audio"
  by (auto simp add: get_array_of_samples_def sample_count_def length_group_bytes
      split: if_splits)

lemma get_array_of_samples_channels:
  "get_array_of_samples (audio\<lparr>channels := c\<rparr>) = get_array_of_samples audio"
  by (simp add: get_array_of_samples_def)

lemma robot_path_Inr:
  assumes "robot_path l audio = Inr out"
  shows "\<exists>xs ys. get_array_of_samples audio = Inr xs
           \<and> pitch_shift l (map real_of_int xs) (frame_rate audio) 5 = Inr ys
           \<and> int (length (tobytes (map astype_int16 ys))) mod (sample_width audio * channels audio) = 0
           \<and> sample_width audio * channels audio \<noteq> 0
           \<and> out = \<lparr>raw_data = tobytes (map astype_int16 ys), frame_rate = frame_rate audio,
                     sample_width = sample_width audio, channels = channels audio\<rparr>"
  using assms
  by (auto simp add: robot_path_def from_float_samples_def AudioSegment_def
      split: sum.splits if_splits)

text \<open>Every way in which the robot path, and a run as a whole, can fail.\<close>

lemma robot_path_Inl_iff:
  "robot_path l audio = Inl e \<longleftrightarrow>
     (sample_width audio \<notin> {1, 2, 4} \<and> e = KeyError ''bit_depth'')
   \<or> (sample_width audio \<in> {1, 2, 4}
        \<and> length (raw_data audio) mod nat (sample_width audio) \<noteq> 0 \<and> e = ValueError)
   \<or> (\<exists>xs. get_array_of_samples audio = Inr xs
        \<and> pitch_shift l (map real_of_int xs) (frame_rate audio) 5 = Inl e)
   \<or> (\<exists>xs ys. get_array_of_samples audio = Inr xs
        \<and> pitch_shift l (map real_of_int xs) (frame_rate audio) 5 = Inr ys
        \<and> channels audio = 0 \<and> e = ZeroDivisionError)
   \<or> (\<exists>xs ys. get_array_of_samples audio = Inr xs
        \<and> pitch_shift l (map real_of_int xs) (frame_rate audio) 5 = Inr ys
        \<and> channels audio \<noteq> 0
        \<and> (2 * int (length ys)) mod (sample_width audio * channels audio) \<noteq> 0
        \<and> e = ValueError)"
proof (cases "get_array_of_samples audio")
  case (Inl e')
  then show ?thesis
    by (auto simp add: robot_path_def get_array_of_samples_def split: if_splits)
next
  case (Inr xs)
  then have w: "sample_width audio \<in> {1, 2, 4}"
    and m: "length (raw_data audio) mod nat (sample_width audio) = 0"
    by (auto simp add: get_array_of_samples_def split: if_splits)
  show ?thesis
  proof (cases "pitch_shift l (map real_of_int xs) (frame_rate audio) 5")
    case (Inl e')
    with Inr w m show ?thesis
      by (auto simp add: robot_path_def)
  next
    case ys: (Inr ys)
    with Inr w m show ?thesis
      by (auto simp add: robot_path_def from_float_samples_def AudioSegment_def length_tobytes)
  qed
qed

lemma process_stages_Inl_iff:
  "process_stages l audio style = Inl e \<longleftrightarrow>
     (speed style \<noteq> 1 \<and> speedup l audio (speed style) = Inl e)
   \<or> (\<exists>a1. (if speed style \<noteq> 1 then speedup l audio (speed style) else Inr audio) = Inr a1
        \<and> ((effect style = Some ''robot'' \<and> robot_path l a1 = Inl e)
           \<or> (effect style \<noteq> Some ''robot'' \<and> pitch style \<noteq> 0
               \<and> new_sample_rate (frame_rate a1) (pitch style) = Inl e)
           \<or> (\<exists>a2. (if effect style = Some ''robot'' then robot_path l a1
                     else if pitch style \<noteq> 0 then pitch_path l a1 style
                     else Inr a1) = Inr a2
                \<and> volume style \<noteq> 0 \<and> apply_gain l a2 (volume style) = Inl e)))"
  by (auto simp add: process_stages_def pitch_path_eq split: sum.splits if_splits)

lemma new_sample_rate_Inl: "new_sample_rate r c = Inl e \<Longrightarrow> e = OverflowError"
  by (auto simp add: new_sample_rate_def split: if_splits)

text \<open>A non-empty buffer stays non-empty on the robot path when the shifter keeps the length.\<close>

lemma samples_width:
  "get_array_of_samples audio = Inr xs \<Longrightarrow> sample_width audio \<in> {1, 2, 4}"
  by (auto simp add: get_array_of_samples_def split: if_splits)

lemma robot_path_nonempty:
  assumes ps: "\<forall>ys sr n zs. pitch_shift l ys sr n = Inr zs \<longrightarrow> length zs = length ys"
      and ne: "0 < sample_count audio"
      and run: "robot_path l audio = Inr out"
  shows "0 < sample_count out"
proof -
  from robot_path_Inr [OF run] obtain xs ys where
    xs: "get_array_of_samples audio = Inr xs" and
    ys: "pitch_shift l (map real_of_int xs) (frame_rate audio) 5 = Inr ys" and
    m: "int (length (tobytes (map astype_int16 ys))) mod (sample_width audio * channels audio) = 0" and
    nz: "sample_width audio * channels audio \<noteq> 0" and
    out: "out = \<lparr>raw_data = tobytes (map astype_int16 ys), frame_rate = frame_rate audio,
                 sample_width = sample_width audio, channels = channels audio\<rparr>"
    by auto
  from ps ys have "length ys = length xs"
    by fastforce
  with length_get_array_of_samples [OF xs] ne have n: "0 < length ys"
    by simp
  have cnt: "sample_count out = (2 * length ys) div nat (sample_width audio)"
    by (simp add: out sample_count_def length_tobytes)
  from m have "sample_width audio * channels audio dvd 2 * int (length ys)"
    by (simp add: dvd_eq_mod_eq_0 length_tobytes)
  then have d: "sample_width audio dvd 2 * int (length ys)"
    by (rule dvd_mult_left)
  from n have "0 < 2 * int (length ys)"
    by simp
  with d have le: "sample_width audio \<le> 2 * int (length ys)"
    by (rule zdvd_imp_le)
  from samples_width [OF xs] have pos: "0 < sample_width audio"
    by auto
  from le pos have "nat (sample_width audio) \<le> 2 * length ys"
    by linarith
  with pos have "0 < (2 * length ys) div nat (sample_width audio)"
    by (simp add: div_greater_zero_iff)
  with cnt show ?thesis
    by simp
qed

text \<open>The concrete buffers, read and rebuilt.\<close>

lemma samples_of_mono_buffer: "get_array_of_samples mono_buffer = Inr [1, - 2]"
  by (simp add: get_array_of_samples_def mono_buffer_def group_bytes.simps le_signed_def)

lemma samples_of_ragged_stereo_buffer: "get_array_of_samples ragged_stereo_buffer = Inr [1, 2, 3]"
  by (simp add: get_array_of_samples_def ragged_stereo_buffer_def group_bytes.simps
      le_signed_def)

lemma tobytes_mono: "tobytes [astype_int16 1, astype_int16 (- 2)] = [1, 0, 254, 255]"
  by (simp add: tobytes_def astype_int16_def py_int_def)

lemma robot_path_mono_buffer: "robot_path passthrough_lib mono_buffer = Inr mono_buffer"
  by (simp add: robot_path_def samples_of_mono_buffer passthrough_lib_def from_float_samples_def
      tobytes_mono AudioSegment_def) (simp add: mono_buffer_def)

section \<open>The registry\<close>

text \<open>
  C4: the registry holds exactly six profiles, named neutral, happy, sad, angry,
  whisper and robot, with the values of the table; only the robot profile carries
  an effect. The registry is a constant: no function of the program takes it as an
  argument it could change or returns a new one.
\<close>

theorem voice_styles_table:
  "map fst voice_styles = [''neutral'', ''happy'', ''sad'', ''angry'', ''whisper'', ''robot'']
   \<and> length voice_styles = 6
   \<and> map_of voice_styles ''neutral'' = Some \<lparr>speed = 1.0, pitch = 0, volume = 0, effect = None\<rparr>
   \<and> map_of voice_styles ''happy'' = Some \<lparr>speed = 1.2, pitch = 50, volume = 2, effect = None\<rparr>
   \<and> map_of voice_styles ''sad'' = Some \<lparr>speed = 0.8, pitch = -30, volume = -3, effect = None\<rparr>
   \<and> map_of voice_styles ''angry'' = Some \<lparr>speed = 1.1, pitch = 20, volume = 6, effect = None\<rparr>
   \<and> map_of voice_styles ''whisper'' = Some \<lparr>speed = 0.9, pitch = -50, volume = -10, effect = None\<rparr>
   \<and> map_of voice_styles ''robot'' = Some \<lparr>speed = 1.0, pitch = 0, volume = 0, effect = Some ''robot''\<rparr>"
  by (simp add: voice_styles_def)

text \<open>
  C9: looking up a name that is not one of the six keys raises the dict's lookup
  error, carrying the name; looking up one of the six keys returns the profile the
  table gives for that key. The lookup is a function of the name alone.
\<close>

theorem lookup_known_or_KeyError:
  "(name \<notin> {''neutral'', ''happy'', ''sad'', ''angry'', ''whisper'', ''robot''}
      \<longrightarrow> lookup name = Inl (KeyError name))
   \<and> (name \<in> {''neutral'', ''happy'', ''sad'', ''angry'', ''whisper'', ''robot''}
      \<longrightarrow> (\<exists>p. lookup name = Inr p \<and> map_of voice_styles name = Some p))"
  by (auto simp add: voice_styles_def lookup_def)

theorem lookup_known_or_KeyError_witness:
  "''nonexistent'' \<notin> {''neutral'', ''happy'', ''sad'', ''angry'', ''whisper'', ''robot''}
   \<and> lookup ''nonexistent'' = Inl (KeyError ''nonexistent'')
   \<and> ''happy'' \<in> {''neutral'', ''happy'', ''sad'', ''angry'', ''whisper'', ''robot''}
   \<and> lookup ''happy'' = Inr \<lparr>speed = 1.2, pitch = 50, volume = 2, effect = None\<rparr>"
  using lookup_known_or_KeyError [of "''nonexistent''"] lookup_known_or_KeyError [of "''happy''"]
  by (simp add: voice_styles_def)

section \<open>The pipeline\<close>

text \<open>
  C5: the body of process_audio is the three stages in the order time-scale,
  pitch/effect, gain. Each stage returns its input when its parameter has the
  unchanged value (speed 1.0; pitch 0 with no robot effect; volume 0) and calls its
  transformation otherwise; stage B takes the robot path whenever the effect is
  robot, whatever the pitch, and the pitch path only otherwise; the gain stage comes
  last.
\<close>

theorem process_stages_is_pipeline:
  "process_stages l audio style = pipeline l audio style"
  by (simp add: process_stages_def pipeline_def then_stage_def stage_A_def stage_B_def
      stage_C_def split: sum.splits)

text \<open>
  C1, as the code has it: the pitch path tags the samples with the virtual rate
  \<open>int(rate * 2 ** (pitch / 1200))\<close> and hands them on at that rate. With the happy
  profile, whatever the library does, the segment given to the gain stage is the
  output of the speed stage retagged; a 24 kHz buffer leaves at 24703 Hz, its data
  untouched. The output rate is not the input's.
\<close>

theorem pitch_path_keeps_virtual_rate:
  "process_stages l audio \<lparr>speed = 1.2, pitch = 50, volume = 2, effect = None\<rparr> =
     then_stage (speedup l audio 1.2)
       (\<lambda>audio1. then_stage (new_sample_rate (frame_rate audio1) 50)
          (\<lambda>r. apply_gain l (audio1\<lparr>frame_rate := r\<rparr>) 2))
   \<and> new_sample_rate 24000 50 = Inr 24703
   \<and> process_stages passthrough_lib mono_buffer \<lparr>speed = 1.2, pitch = 50, volume = 2, effect = None\<rparr>
       = Inr (mono_buffer\<lparr>frame_rate := 24703\<rparr>)"
proof (intro conjI)
  show "process_stages l audio \<lparr>speed = 1.2, pitch = 50, volume = 2, effect = None\<rparr> =
     then_stage (speedup l audio 1.2)
       (\<lambda>audio1. then_stage (new_sample_rate (frame_rate audio1) 50)
          (\<lambda>r. apply_gain l (audio1\<lparr>frame_rate := r\<rparr>) 2))"
    by (simp add: process_stages_def then_stage_def pitch_path_eq split: sum.splits)
  show "new_sample_rate 24000 50 = Inr 24703"
    by (rule new_sample_rate_happy)
  have "frame_rate mono_buffer = 24000"
    by (simp add: mono_buffer_def)
  then show "process_stages passthrough_lib mono_buffer
        \<lparr>speed = 1.2, pitch = 50, volume = 2, effect = None\<rparr>
      = Inr (mono_buffer\<lparr>frame_rate := 24703\<rparr>)"
    by (simp add: process_stages_def pitch_path_eq new_sample_rate_happy passthrough_lib_def)
qed

section \<open>Failures of the stages\<close>




text \<open>
  C3, as stated, fails: with the neutral profile a five-channel buffer, and a stereo
  buffer holding three samples, are returned as they are; no error is raised.
\<close>

theorem odd_formats_pass_unchecked:
  "process_stages passthrough_lib five_channel_buffer neutral_style = Inr five_channel_buffer
   \<and> process_stages passthrough_lib ragged_stereo_buffer neutral_style = Inr ragged_stereo_buffer"
  by (simp add: process_stages_def neutral_style_def)

text \<open>
  C3, amended: process_audio has no error for an unsupported format or a malformed
  buffer, and never compares the channel count or the sample width with a supported
  set. With no stage active every buffer is returned unchanged. A run fails exactly
  when a call on its path fails: the library's speedup, shifter or gain; the float
  arithmetic of the pitch path, always with OverflowError; and, on the robot path
  only, reading the sample array (KeyError for a sample width other than 1, 2 or 4
  bytes, ValueError for data whose length is not a multiple of the width) or
  rebuilding the segment (ZeroDivisionError for a channel count of 0, ValueError
  when the byte length of the rebuilt 16-bit data is not a multiple of sample width
  times channel count).
\<close>

theorem no_format_validation:
  "(speed style = 1 \<and> effect style \<noteq> Some ''robot'' \<and> pitch style = 0 \<and> volume style = 0
      \<longrightarrow> process_stages l audio style = Inr audio)
   \<and> (process_stages l audio style = Inl e \<longleftrightarrow>
         (speed style \<noteq> 1 \<and> speedup l audio (speed style) = Inl e)
       \<or> (\<exists>a1. (if speed style \<noteq> 1 then speedup l audio (speed style) else Inr audio) = Inr a1
            \<and> ((effect style = Some ''robot'' \<and> robot_path l a1 = Inl e)
               \<or> (effect style \<noteq> Some ''robot'' \<and> pitch style \<noteq> 0
                   \<and> new_sample_rate (frame_rate a1) (pitch style) = Inl e)
               \<or> (\<exists>a2. (if effect style = Some ''robot'' then robot_path l a1
                         else if pitch style \<noteq> 0 then pitch_path l a1 style
                         else Inr a1) = Inr a2
                    \<and> volume style \<noteq> 0 \<and> apply_gain l a2 (volume style) = Inl e))))
   \<and> (new_sample_rate r c = Inl e \<longrightarrow> e = OverflowError)
   \<and> (robot_path l a = Inl e \<longleftrightarrow>
         (sample_width a \<notin> {1, 2, 4} \<and> e = KeyError ''bit_depth'')
       \<or> (sample_width a \<in> {1, 2, 4}
            \<and> length (raw_data a) mod nat (sample_width a) \<noteq> 0 \<and> e = ValueError)
       \<or> (\<exists>xs. get_array_of_samples a = Inr xs
            \<and> pitch_shift l (map real_of_int xs) (frame_rate a) 5 = Inl e)
       \<or> (\<exists>xs ys. get_array_of_samples a = Inr xs
            \<and> pitch_shift l (map real_of_int xs) (frame_rate a) 5 = Inr ys
            \<and> channels a = 0 \<and> e = ZeroDivisionError)
       \<or> (\<exists>xs ys. get_array_of_samples a = Inr xs
            \<and> pitch_shift l (map real_of_int xs) (frame_rate a) 5 = Inr ys
            \<and> channels a \<noteq> 0
            \<and> (2 * int (length ys)) mod (sample_width a * channels a) \<noteq> 0
            \<and> e = ValueError))"
proof (intro conjI)
  show "speed style = 1 \<and> effect style \<noteq> Some ''robot'' \<and> pitch style = 0 \<and> volume style = 0
      \<longrightarrow> process_stages l audio style = Inr audio"
    by (simp add: process_stages_def)
  show "new_sample_rate r c = Inl e \<longrightarrow> e = OverflowError"
    by (auto dest: new_sample_rate_Inl)
qed (rule process_stages_Inl_iff, rule robot_path_Inl_iff)

theorem no_format_validation_witness:
  "process_stages passthrough_lib five_channel_buffer neutral_style = Inr five_channel_buffer
   \<and> process_stages passthrough_lib ragged_stereo_buffer robot_style = Inl ValueError
   \<and> robot_path passthrough_lib (mono_buffer\<lparr>sample_width := 5\<rparr>) = Inl (KeyError ''bit_depth'')
   \<and> robot_path passthrough_lib (mono_buffer\<lparr>raw_data := [1, 0, 2]\<rparr>) = Inl ValueError"
proof -
  have g: "pitch_shift passthrough_lib (map real_of_int [1, 2, 3]) (frame_rate ragged_stereo_buffer) 5
      = Inr [1, 2, 3]"
    by (simp add: passthrough_lib_def)
  have r: "robot_path passthrough_lib ragged_stereo_buffer = Inl ValueError"
    using no_format_validation [of neutral_style passthrough_lib ragged_stereo_buffer ValueError 0 0 ragged_stereo_buffer]
      samples_of_ragged_stereo_buffer g
    by (simp add: ragged_stereo_buffer_def)
  have p: "process_stages passthrough_lib ragged_stereo_buffer robot_style = Inl ValueError"
    using no_format_validation [of robot_style passthrough_lib ragged_stereo_buffer ValueError 0 0 ragged_stereo_buffer] r
    by (simp add: robot_style_def)
  have n: "process_stages passthrough_lib five_channel_buffer neutral_style = Inr five_channel_buffer"
    using no_format_validation [of neutral_style passthrough_lib five_channel_buffer ValueError 0 0 five_channel_buffer]
    by (simp add: neutral_style_def)
  have k: "robot_path passthrough_lib (mono_buffer\<lparr>sample_width := 5\<rparr>) = Inl (KeyError ''bit_depth'')"
    using no_format_validation [of neutral_style passthrough_lib mono_buffer "KeyError ''bit_depth''" 0 0
        "mono_buffer\<lparr>sample_width := 5\<rparr>"]
    by simp
  have v: "robot_path passthrough_lib (mono_buffer\<lparr>raw_data := [1, 0, 2]\<rparr>) = Inl ValueError"
    using no_format_validation [of neutral_style passthrough_lib mono_buffer ValueError 0 0
        "mono_buffer\<lparr>raw_data := [1, 0, 2]\<rparr>"]
    by (simp add: mono_buffer_def)
  from n p k v show ?thesis
    by simp
qed

section \<open>The neutral profile\<close>

text \<open>
  C6: with the neutral profile (speed 1.0, pitch 0, volume 0, no effect), which is
  what the registry holds under that name, the decoded buffer comes back unchanged,
  so running the profile twice gives what running it once gives; all that
  process_audio then does is decode and encode.
\<close>

theorem neutral_profile_is_identity:
  "process_stages l audio neutral_style = Inr audio
   \<and> then_stage (process_stages l audio neutral_style) (\<lambda>b. process_stages l b neutral_style)
       = process_stages l audio neutral_style
   \<and> lookup ''neutral'' = Inr neutral_style
   \<and> process_audio l audio_bytes neutral_style = then_stage (from_file l audio_bytes) (export l)"
  by (simp add: process_stages_def neutral_style_def then_stage_def lookup_def voice_styles_def
      process_audio_def split: sum.splits)

section \<open>The robot path\<close>

text \<open>
  C2, as stated, fails: a shifted sample of 40000.0 is stored as the bytes 64, 156,
  the 16-bit value -25536. It is not clamped to 32767.
\<close>

theorem float_to_int16_wraps:
  "from_float_samples mono_buffer [40000] = Inr (mono_buffer\<lparr>raw_data := [64, 156]\<rparr>)
   \<and> sint (astype_int16 40000) = - 25536"
  by (simp add: from_float_samples_def AudioSegment_def tobytes_def astype_int16_def py_int_def
      mono_buffer_def)

text \<open>
  C2, amended: with the robot effect the pitch value plays no part; the shifter is
  called with the fixed step count 5 on the samples of the buffer, and its float
  result is stored as 16-bit integers, whatever the sample width of the buffer. For
  a 16-bit buffer the output holds as many samples as the shifter returned, hence as
  many as the input when the shifter keeps the length. The conversion drops the
  fraction and keeps the low 16 bits: a value in the 16-bit range is stored exactly,
  a value outside it wraps.
\<close>

theorem robot_path_fixed_shift_wrapping_cast:
  "(effect style = Some ''robot''
      \<longrightarrow> process_stages l audio (style\<lparr>pitch := cents\<rparr>) = process_stages l audio style)
   \<and> (robot_path l audio = Inr out
      \<longrightarrow> (\<exists>xs ys. get_array_of_samples audio = Inr xs
             \<and> pitch_shift l (map real_of_int xs) (frame_rate audio) 5 = Inr ys
             \<and> raw_data out = tobytes (map astype_int16 ys)
             \<and> (sample_width audio = 2 \<longrightarrow> sample_count out = length ys)
             \<and> (sample_width audio = 2 \<and> length ys = length xs
                  \<longrightarrow> sample_count out = sample_count audio)))
   \<and> (- 2147483648 \<le> py_int v \<and> py_int v < 2147483648
      \<longrightarrow> sint (astype_int16 v) = (py_int v + 32768) mod 65536 - 32768)
   \<and> (- 32768 \<le> py_int v \<and> py_int v \<le> 32767 \<longrightarrow> sint (astype_int16 v) = py_int v)"
proof (intro conjI impI)
  assume "effect style = Some ''robot''"
  then show "process_stages l audio (style\<lparr>pitch := cents\<rparr>) = process_stages l audio style"
    by (simp add: process_stages_def split: sum.splits)
next
  assume "robot_path l audio = Inr out"
  from robot_path_Inr [OF this] obtain xs ys where
    xs: "get_array_of_samples audio = Inr xs" and
    ys: "pitch_shift l (map real_of_int xs) (frame_rate audio) 5 = Inr ys" and
    out: "out = \<lparr>raw_data = tobytes (map astype_int16 ys), frame_rate = frame_rate audio,
                 sample_width = sample_width audio, channels = channels audio\<rparr>"
    by auto
  have "sample_width audio = 2 \<longrightarrow> sample_count out = length ys"
    by (simp add: out sample_count_def length_tobytes)
  moreover have "sample_width audio = 2 \<and> length ys = length xs
      \<longrightarrow> sample_count out = sample_count audio"
    using length_get_array_of_samples [OF xs]
    by (simp add: out sample_count_def length_tobytes)
  ultimately show "\<exists>xs ys. get_array_of_samples audio = Inr xs
             \<and> pitch_shift l (map real_of_int xs) (frame_rate audio) 5 = Inr ys
             \<and> raw_data out = tobytes (map astype_int16 ys)
             \<and> (sample_width audio = 2 \<longrightarrow> sample_count out = length ys)
             \<and> (sample_width audio = 2 \<and> length ys = length xs
                  \<longrightarrow> sample_count out = sample_count audio)"
    using xs ys out by auto
next
  show "sint (astype_int16 v) = (py_int v + 32768) mod 65536 - 32768"
    by (simp add: astype_int16_def int_word_sint)
next
  have w: "sint (astype_int16 v) = (py_int v + 32768) mod 65536 - 32768"
    by (simp add: astype_int16_def int_word_sint)
  assume "- 32768 \<le> py_int v \<and> py_int v \<le> 32767"
  then show "sint (astype_int16 v) = py_int v"
    unfolding w by simp
qed

theorem robot_path_fixed_shift_wrapping_cast_witness:
  "process_stages passthrough_lib mono_buffer (robot_style\<lparr>pitch := 700\<rparr>)
      = process_stages passthrough_lib mono_buffer robot_style
   \<and> robot_path passthrough_lib mono_buffer = Inr mono_buffer
   \<and> sample_count mono_buffer = 2
   \<and> sint (astype_int16 (- 1.5)) = - 1"
  using robot_path_fixed_shift_wrapping_cast
      [of robot_style passthrough_lib mono_buffer 700 mono_buffer "- 1.5"]
    robot_path_mono_buffer
  by (simp add: robot_style_def py_int_def sample_count_def mono_buffer_def)

text \<open>
  C10: on the robot path the samples of all channels, interleaved as they lie in the
  data, are read as one sequence and given to the shifter in one call at the frame
  rate of the buffer. The channel count plays no part in the shift: the output is
  what the same data tagged as mono gives, tagged with the original channel count.
\<close>

theorem robot_path_shifts_interleaved_signal:
  assumes "robot_path l audio = Inr out"
  shows "\<exists>xs ys. get_array_of_samples (audio\<lparr>channels := 1\<rparr>) = Inr xs
           \<and> length xs = sample_count audio
           \<and> pitch_shift l (map real_of_int xs) (frame_rate audio) 5 = Inr ys
           \<and> robot_path l (audio\<lparr>channels := 1\<rparr>) = Inr (out\<lparr>channels := 1\<rparr>)
           \<and> out = \<lparr>raw_data = tobytes (map astype_int16 ys), frame_rate = frame_rate audio,
                     sample_width = sample_width audio, channels = channels audio\<rparr>"
proof -
  from robot_path_Inr [OF assms] obtain xs ys where
    xs: "get_array_of_samples audio = Inr xs" and
    ys: "pitch_shift l (map real_of_int xs) (frame_rate audio) 5 = Inr ys" and
    m: "int (length (tobytes (map astype_int16 ys))) mod (sample_width audio * channels audio) = 0" and
    nz: "sample_width audio * channels audio \<noteq> 0" and
    out: "out = \<lparr>raw_data = tobytes (map astype_int16 ys), frame_rate = frame_rate audio,
                 sample_width = sample_width audio, channels = channels audio\<rparr>"
    by auto
  from m have "sample_width audio * channels audio dvd int (length (tobytes (map astype_int16 ys)))"
    by (simp add: dvd_eq_mod_eq_0)
  then have "sample_width audio dvd int (length (tobytes (map astype_int16 ys)))"
    by (rule dvd_mult_left)
  then have m1: "int (length (tobytes (map astype_int16 ys))) mod sample_width audio = 0"
    by (simp add: dvd_eq_mod_eq_0)
  from nz have nz1: "sample_width audio \<noteq> 0"
    by auto
  have "robot_path l (audio\<lparr>channels := 1\<rparr>) = Inr (out\<lparr>channels := 1\<rparr>)"
    using xs ys m1 nz1
    by (simp add: robot_path_def get_array_of_samples_channels from_float_samples_def
        AudioSegment_def out)
  then show ?thesis
    using xs ys out length_get_array_of_samples [OF xs]
    by (simp add: get_array_of_samples_channels)
qed

theorem robot_path_shifts_interleaved_signal_witness:
  "robot_path passthrough_lib (mono_buffer\<lparr>channels := 2\<rparr>) = Inr (mono_buffer\<lparr>channels := 2\<rparr>)
   \<and> get_array_of_samples (mono_buffer\<lparr>channels := 2\<rparr>) = Inr [1, - 2]
   \<and> robot_path passthrough_lib (mono_buffer\<lparr>channels := 1\<rparr>) = Inr (mono_buffer\<lparr>channels := 1\<rparr>)"
proof -
  have r: "robot_path passthrough_lib (mono_buffer\<lparr>channels := 2\<rparr>)
      = Inr (mono_buffer\<lparr>channels := 2\<rparr>)"
    by (simp add: robot_path_def get_array_of_samples_channels samples_of_mono_buffer
        passthrough_lib_def from_float_samples_def tobytes_mono AudioSegment_def)
      (simp add: mono_buffer_def)
  from robot_path_shifts_interleaved_signal [OF r] show ?thesis
    using r by (auto simp add: get_array_of_samples_channels samples_of_mono_buffer)
qed

section \<open>What every run keeps\<close>

text \<open>
  C7: for a library whose speedup and gain keep the channel count and the sample
  width and leave a non-empty buffer non-empty, and whose shifter returns as many
  samples as it is given, every run on a non-empty buffer that returns a buffer
  returns one with the channel count and the sample width of the input and with a
  positive (and, being the length of a list, finite) sample count. This holds on
  the robot path too, which rebuilds the buffer from the shifted samples under the
  old tags.
\<close>

theorem process_keeps_channels_and_width:
  assumes sp: "\<forall>a s b. speedup l a s = Inr b
                 \<longrightarrow> channels b = channels a \<and> sample_width b = sample_width a
                     \<and> (0 < sample_count a \<longrightarrow> 0 < sample_count b)"
      and ga: "\<forall>a g b. apply_gain l a g = Inr b
                 \<longrightarrow> channels b = channels a \<and> sample_width b = sample_width a
                     \<and> (0 < sample_count a \<longrightarrow> 0 < sample_count b)"
      and ps: "\<forall>ys sr n zs. pitch_shift l ys sr n = Inr zs \<longrightarrow> length zs = length ys"
      and ne: "0 < sample_count audio"
      and run: "process_stages l audio style = Inr out"
  shows "channels out = channels audio \<and> sample_width out = sample_width audio
     \<and> 0 < sample_count out"
proof -
  from run obtain a1 a2 where
    A: "(if speed style \<noteq> 1 then speedup l audio (speed style) else Inr audio) = Inr a1" and
    B: "(if effect style = Some ''robot'' then robot_path l a1
         else if pitch style \<noteq> 0 then pitch_path l a1 style else Inr a1) = Inr a2" and
    C: "(if volume style \<noteq> 0 then apply_gain l a2 (volume style) else Inr a2) = Inr out"
    by (auto simp add: process_stages_def split: sum.splits)
  have a1: "channels a1 = channels audio \<and> sample_width a1 = sample_width audio
      \<and> 0 < sample_count a1"
    using A sp ne by (auto split: if_splits)
  have a2: "channels a2 = channels a1 \<and> sample_width a2 = sample_width a1"
    using B by (auto simp add: pitch_path_eq dest!: robot_path_Inr split: if_splits sum.splits)
  have n2: "0 < sample_count a2"
  proof (cases "effect style = Some ''robot''")
    case True
    with B have "robot_path l a1 = Inr a2"
      by simp
    with ps a1 show ?thesis
      by (auto intro: robot_path_nonempty)
  next
    case False
    with B a1 show ?thesis
      by (auto simp add: pitch_path_eq sample_count_def split: if_splits sum.splits)
  qed
  have a3: "channels out = channels a2 \<and> sample_width out = sample_width a2
      \<and> 0 < sample_count out"
    using C ga n2 by (auto split: if_splits)
  with a1 a2 show ?thesis
    by simp
qed

theorem process_keeps_channels_and_width_witness:
  "process_stages passthrough_lib mono_buffer robot_style = Inr mono_buffer
   \<and> channels mono_buffer = 1 \<and> sample_width mono_buffer = 2 \<and> sample_count mono_buffer = 2"
proof -
  have run: "process_stages passthrough_lib mono_buffer robot_style = Inr mono_buffer"
    by (simp add: process_stages_def robot_style_def robot_path_mono_buffer)
  have sp: "\<forall>a s b. speedup passthrough_lib a s = Inr b
              \<longrightarrow> channels b = channels a \<and> sample_width b = sample_width a
                  \<and> (0 < sample_count a \<longrightarrow> 0 < sample_count b)"
    by (simp add: passthrough_lib_def)
  have ga: "\<forall>a g b. apply_gain passthrough_lib a g = Inr b
              \<longrightarrow> channels b = channels a \<and> sample_width b = sample_width a
                  \<and> (0 < sample_count a \<longrightarrow> 0 < sample_count b)"
    by (simp add: passthrough_lib_def)
  have ps: "\<forall>ys sr n zs. pitch_shift passthrough_lib ys sr n = Inr zs
              \<longrightarrow> length zs = length ys"
    by (auto simp add: passthrough_lib_def)
  have ne: "0 < sample_count mono_buffer"
    by (simp add: sample_count_def mono_buffer_def)
  from process_keeps_channels_and_width [OF sp ga ps ne run] run show ?thesis
    by (simp add: mono_buffer_def sample_count_def)
qed

end
